theory Spec2Isabelle
  imports Main "HOL-Library.AList"
begin

section \<open>Luxury Catering API: the endpoint layer of main.py\<close>

text \<open>
  The handlers of \<^verbatim>\<open>main.py\<close> are embedded as functions over an explicit storage
  handle. A Python \<^verbatim>\<open>str\<close> is a \<open>string\<close> holding its UTF-8 bytes, a \<^verbatim>\<open>dict\<close> is an
  association list in insertion order, a raised exception is the \<open>Inl\<close> of a sum, and
  the global \<^verbatim>\<open>db\<close> is threaded through every call that may write to the store.
\<close>

subsection \<open>Values, documents and exceptions\<close>

datatype pyval = PyNone | Str string | StrList "string list" | ObjectId nat

type_synonym doc = "(string \<times> pyval) list"

datatype storage_error = Unconfigured | Failure string

datatype exn =
    HTTPException nat string
  | RequestValidationError "string list"
  | ValidationError "string list"
  | StorageError storage_error
  | TypeError string

text \<open>
  A computation over a state \<open>'s\<close> that returns a value or raises; the state it
  leaves behind is kept in both cases, as a Python exception keeps every mutation
  made before it.
\<close>

type_synonym ('a, 's) io = "'s \<Rightarrow> (exn + 'a) \<times> 's"

definition return_io :: "'a \<Rightarrow> ('a, 's) io" where
  "return_io a s = (Inr a, s)"

definition raise_io :: "exn \<Rightarrow> ('a, 's) io" where
  "raise_io e s = (Inl e, s)"

definition bind_io :: "('a, 's) io \<Rightarrow> ('a \<Rightarrow> ('b, 's) io) \<Rightarrow> ('b, 's) io" where
  "bind_io m f s = (case m s of (Inl e, s') \<Rightarrow> (Inl e, s') | (Inr a, s') \<Rightarrow> f a s')"

text \<open>\<^verbatim>\<open>try: m  except Exception as e: h(e)\<close>\<close>

definition try_except :: "('a, 's) io \<Rightarrow> (exn \<Rightarrow> ('a, 's) io) \<Rightarrow> ('a, 's) io" where
  "try_except m h s = (case m s of (Inl e, s') \<Rightarrow> h e s' | (Inr a, s') \<Rightarrow> (Inr a, s'))"

text \<open>\<^verbatim>\<open>for x in xs: f(x)\<close>, stopping at the first exception.\<close>

fun for_each :: "('a \<Rightarrow> ('b, 's) io) \<Rightarrow> 'a list \<Rightarrow> (unit, 's) io" where
  "for_each f [] s = (Inr (), s)"
| "for_each f (x # xs) s =
     (case f x s of (Inl e, s') \<Rightarrow> (Inl e, s') | (Inr _, s') \<Rightarrow> for_each f xs s')"

text \<open>\<^verbatim>\<open>[f(x) for x in xs]\<close>, raising what the first failing element raises.\<close>

fun comprehension :: "('a \<Rightarrow> exn + 'b) \<Rightarrow> 'a list \<Rightarrow> exn + 'b list" where
  "comprehension f [] = Inr []"
| "comprehension f (x # xs) =
     (case f x of
        Inl e \<Rightarrow> Inl e
      | Inr y \<Rightarrow> (case comprehension f xs of Inl e \<Rightarrow> Inl e | Inr ys \<Rightarrow> Inr (y # ys)))"

text \<open>
  \<^verbatim>\<open>s[:n]\<close> on a Python string keeps the first \<open>n\<close> code points. On the UTF-8 bytes
  that is every byte up to the start of code point \<open>n\<close>: a continuation byte
  (\<open>0x80\<close> to \<open>0xBF\<close>) belongs to the code point before it.
\<close>

definition continuation :: "char \<Rightarrow> bool" where
  "continuation c = (128 \<le> (of_char c :: nat) \<and> (of_char c :: nat) < 192)"

fun take_chars :: "nat \<Rightarrow> string \<Rightarrow> string" where
  "take_chars n [] = []"
| "take_chars n (c # cs) =
     (if continuation c then c # take_chars n cs
      else (case n of 0 \<Rightarrow> [] | Suc m \<Rightarrow> c # take_chars m cs))"

subsection \<open>The document store\<close>

text \<open>
  The handle \<^verbatim>\<open>db\<close> imported from \<^verbatim>\<open>database\<close> is \<^verbatim>\<open>None\<close> or a live database:
  its name (absent when the object has no attribute \<^verbatim>\<open>name\<close>), its collections in
  creation order, the next identifier the store will assign, and for every operation
  the message of the error it raises, if it raises.
\<close>

datatype store_op = Count string | Insert string | Find string | ListNames

record database =
  db_name :: "string option"
  colls :: "(string \<times> doc list) list"
  next_id :: nat
  fault :: "store_op \<Rightarrow> string option"

definition docs_of :: "database \<Rightarrow> string \<Rightarrow> doc list" where
  "docs_of d c = (case map_of (colls d) c of None \<Rightarrow> [] | Some ds \<Rightarrow> ds)"

definition stored :: "database option \<Rightarrow> string \<Rightarrow> doc list" where
  "stored db c = (case db of None \<Rightarrow> [] | Some d \<Rightarrow> docs_of d c)"

text \<open>\<^verbatim>\<open>db[c].count_documents({})\<close>; subscripting \<^verbatim>\<open>None\<close> is a \<^verbatim>\<open>TypeError\<close>.\<close>

definition count_documents :: "string \<Rightarrow> (nat, database option) io" where
  "count_documents c db =
     (case db of
        None \<Rightarrow> (Inl (TypeError ''NoneType object is not subscriptable''), db)
      | Some d \<Rightarrow>
          (case fault d (Count c) of
             Some m \<Rightarrow> (Inl (StorageError (Failure m)), db)
           | None \<Rightarrow> (Inr (length (docs_of d c)), db)))"

text \<open>\<^verbatim>\<open>db.list_collection_names()\<close>\<close>

definition list_collection_names :: "database \<Rightarrow> exn + string list" where
  "list_collection_names d =
     (case fault d ListNames of
        Some m \<Rightarrow> Inl (StorageError (Failure m))
      | None \<Rightarrow> Inr (map fst (colls d)))"

text \<open>
  Modelled from the spec: \<^verbatim>\<open>create_document\<close> of the module \<^verbatim>\<open>database\<close>, which
  is not among the sources. It inserts the record into the named collection, where
  it carries a store-assigned identifier and comes after the records already there;
  it returns the identifier, and fails with a storage error when the connection is
  unavailable or the store rejects the insert.
\<close>

definition create_document :: "string \<Rightarrow> doc \<Rightarrow> (pyval, database option) io" where
  "create_document c data db =
     (case db of
        None \<Rightarrow> (Inl (StorageError Unconfigured), db)
      | Some d \<Rightarrow>
          (case fault d (Insert c) of
             Some m \<Rightarrow> (Inl (StorageError (Failure m)), db)
           | None \<Rightarrow>
               (Inr (ObjectId (next_id d)),
                Some (d\<lparr>colls := AList.update c
                                   (docs_of d c @ [(''_id'', ObjectId (next_id d)) # data])
                                   (colls d),
                        next_id := Suc (next_id d)\<rparr>))))"

text \<open>
  Modelled from the spec: \<^verbatim>\<open>get_documents\<close> of the module \<^verbatim>\<open>database\<close>, which is
  not among the sources. It returns every document of the named collection in the
  store's order, the empty sequence when the collection does not exist, and fails
  with a storage error when the connection is unavailable or the read fails.
\<close>

definition get_documents :: "string \<Rightarrow> database option \<Rightarrow> exn + doc list" where
  "get_documents c db =
     (case db of
        None \<Rightarrow> Inl (StorageError Unconfigured)
      | Some d \<Rightarrow>
          (case fault d (Find c) of
             Some m \<Rightarrow> Inl (StorageError (Failure m))
           | None \<Rightarrow> Inr (docs_of d c)))"

subsection \<open>Schemas\<close>

text \<open>
  Modelled from the spec: the classes of the module \<^verbatim>\<open>schemas\<close>, which is not among
  the sources. A schema declares its fields in order, each with a type; a field
  without a default is required. Constructing a record from keyword arguments keeps
  the declared fields only, in declared order, and fails with a validation error
  naming every required field that is missing and every field that is mis-typed.
\<close>

datatype ftype = TStr | TStrList

record field_decl =
  field_name :: string
  field_type :: ftype
  field_default :: "pyval option"

type_synonym schema = "field_decl list"

definition model_fields :: "schema \<Rightarrow> string list" where
  "model_fields sch = map field_name sch"

fun well_typed :: "ftype \<Rightarrow> pyval \<Rightarrow> bool" where
  "well_typed TStr (Str s) = True"
| "well_typed TStrList (StrList ss) = True"
| "well_typed t v = False"

definition field_error :: "doc \<Rightarrow> field_decl \<Rightarrow> bool" where
  "field_error kwargs f =
     (case map_of kwargs (field_name f) of
        None \<Rightarrow> field_default f = None
      | Some v \<Rightarrow> \<not> well_typed (field_type f) v)"

definition field_value :: "doc \<Rightarrow> field_decl \<Rightarrow> pyval" where
  "field_value kwargs f =
     (case map_of kwargs (field_name f) of
        Some v \<Rightarrow> v
      | None \<Rightarrow> (case field_default f of Some v \<Rightarrow> v | None \<Rightarrow> PyNone))"

definition construct :: "schema \<Rightarrow> doc \<Rightarrow> exn + doc" where
  "construct sch kwargs =
     (if filter (field_error kwargs) sch = []
      then Inr (map (\<lambda>f. (field_name f, field_value kwargs f)) sch)
      else Inl (ValidationError (map field_name (filter (field_error kwargs) sch))))"

definition required :: "string \<Rightarrow> ftype \<Rightarrow> field_decl" where
  "required n t = \<lparr>field_name = n, field_type = t, field_default = None\<rparr>"

definition MenuItem :: schema where
  "MenuItem =
     [required ''title'' TStr, required ''description'' TStr, required ''category'' TStr,
      required ''tags'' TStrList, required ''image_url'' TStr]"

definition Testimonial :: schema where
  "Testimonial = [required ''name'' TStr, required ''title'' TStr, required ''quote'' TStr]"

definition GalleryImage :: schema where
  "GalleryImage = [required ''url'' TStr, required ''alt'' TStr]"

subsection \<open>Seeding\<close>

definition menu_defaults :: "doc list" where
  "menu_defaults =
     [[(''title'', Str ''Black Truffle Arancini''),
       (''description'', Str ''Crisp risotto pearls with aged Parmesan and shaved truffle.''),
       (''category'', Str (''Canap'' @ [CHR 0xC3, CHR 0xA9] @ ''s'')),
       (''tags'', StrList [''vegetarian'', ''signature'']),
       (''image_url'', Str ''https://images.unsplash.com/photo-1544025162-d76694265947?q=80&w=1600&auto=format&fit=crop'')],
      [(''title'', Str ''Butter-Poached Lobster''),
       (''description'', Str (''Champagne velout'' @ [CHR 0xC3, CHR 0xA9] @ '', fennel pollen, and gold leaf.'')),
       (''category'', Str ''Mains''),
       (''tags'', StrList [''seafood'']),
       (''image_url'', Str ''https://images.unsplash.com/photo-1546069901-ba9599a7e63c?q=80&w=1600&auto=format&fit=crop'')],
      [(''title'', Str ''Valrhona Chocolate Tart''),
       (''description'', Str (''Sea salt ganache, vanilla cr'' @ [CHR 0xC3, CHR 0xA8] @ ''me, cacao nib praline.'')),
       (''category'', Str ''Desserts''),
       (''tags'', StrList [''dessert'']),
       (''image_url'', Str ''https://images.unsplash.com/photo-1551024709-8f23befc6cf7?q=80&w=1600&auto=format&fit=crop'')]]"

definition testimonial_defaults :: "doc list" where
  "testimonial_defaults =
     [[(''name'', Str ''Amelia R.''),
       (''title'', Str ''Luxury Wedding, Lake Como''),
       (''quote'', Str ''Impeccable from first tasting to the final toast. A flawless experience.'')],
      [(''name'', Str ''Marcus L.''),
       (''title'', Str ''Global Summit Gala''),
       (''quote'', Str ''World-class service that impressed every executive in the room.'')],
      [(''name'', Str ''Sofia N.''),
       (''title'', Str (''Private Chef'' @ [CHR 0xE2, CHR 0x80, CHR 0x99] @ ''s Table'')),
       (''quote'', Str ''Each course arrived like art. Understated, elegant, unforgettable.'')]]"

definition gallery_defaults :: "doc list" where
  "gallery_defaults =
     [[(''url'', Str ''https://images.unsplash.com/photo-1504754524776-8f4f37790ca0?q=80&w=1600&auto=format&fit=crop''),
       (''alt'', Str (''Caviar canap'' @ [CHR 0xC3, CHR 0xA9] @ ''s''))],
      [(''url'', Str ''https://images.unsplash.com/photo-1517248135467-4c7edcad34c4?q=80&w=1600&auto=format&fit=crop''),
       (''alt'', Str ''Fine dining table'')],
      [(''url'', Str ''https://images.unsplash.com/photo-1542826438-5ec323d1cb97?q=80&w=1600&auto=format&fit=crop''),
       (''alt'', Str ''Elegant dessert'')],
      [(''url'', Str ''https://images.unsplash.com/photo-1529042410759-befb1204b468?q=80&w=1600&auto=format&fit=crop''),
       (''alt'', Str ''Champagne service'')],
      [(''url'', Str ''https://images.unsplash.com/photo-1541870730196-cd1efcbf5646?q=80&w=1600&auto=format&fit=crop''),
       (''alt'', Str ''Gourmet plating'')],
      [(''url'', Str ''https://images.unsplash.com/photo-1516683037151-9d56a6a58c89?q=80&w=1600&auto=format&fit=crop''),
       (''alt'', Str ''Chef in action'')]]"

text \<open>The body of the \<^verbatim>\<open>try\<close> block of \<^verbatim>\<open>seed_content\<close>.\<close>

definition seed_try :: "(doc, database option) io" where
  "seed_try db =
     (case db of
        None \<Rightarrow> raise_io (HTTPException 500 ''Database not configured'') db
      | Some _ \<Rightarrow>
          bind_io (count_documents ''menuitem'') (\<lambda>n.
          bind_io (if n = 0 then for_each (create_document ''menuitem'') menu_defaults
                   else return_io ()) (\<lambda>_.
          bind_io (count_documents ''testimonial'') (\<lambda>n.
          bind_io (if n = 0 then for_each (create_document ''testimonial'') testimonial_defaults
                   else return_io ()) (\<lambda>_.
          bind_io (count_documents ''galleryimage'') (\<lambda>n.
          bind_io (if n = 0 then for_each (create_document ''galleryimage'') gallery_defaults
                   else return_io ()) (\<lambda>_.
          return_io [(''status'', Str ''ok'')])))))) db)"

text \<open>
  \<^verbatim>\<open>seed_content\<close>: every exception of the body, the \<^verbatim>\<open>HTTPException\<close> it raises
  itself included, is caught and raised again as a 500 whose detail is \<^verbatim>\<open>str(e)\<close>.
  The rendering \<^verbatim>\<open>str\<close> of an exception is the parameter \<open>str_exc\<close>.
\<close>

definition seed_content :: "(exn \<Rightarrow> string) \<Rightarrow> (doc, database option) io" where
  "seed_content str_exc =
     try_except seed_try (\<lambda>e. raise_io (HTTPException 500 (str_exc e)))"

subsection \<open>Read endpoints\<close>

definition get_menu :: "database option \<Rightarrow> exn + doc list" where
  "get_menu db =
     (case get_documents ''menuitem'' db of
        Inl e \<Rightarrow> Inl e
      | Inr docs \<Rightarrow>
          comprehension
            (\<lambda>d. construct MenuItem (filter (\<lambda>(k, v). k \<in> set (model_fields MenuItem)) d))
            docs)"

definition get_testimonials :: "database option \<Rightarrow> exn + doc list" where
  "get_testimonials db =
     (case get_documents ''testimonial'' db of
        Inl e \<Rightarrow> Inl e
      | Inr docs \<Rightarrow>
          comprehension
            (\<lambda>d. construct Testimonial (filter (\<lambda>(k, v). k \<in> set (model_fields Testimonial)) d))
            docs)"

definition get_gallery :: "database option \<Rightarrow> exn + doc list" where
  "get_gallery db =
     (case get_documents ''galleryimage'' db of
        Inl e \<Rightarrow> Inl e
      | Inr docs \<Rightarrow>
          comprehension
            (\<lambda>d. construct GalleryImage (filter (\<lambda>(k, v). k \<in> set (model_fields GalleryImage)) d))
            docs)"

subsection \<open>Contact\<close>

definition post_contact :: "(exn \<Rightarrow> string) \<Rightarrow> doc \<Rightarrow> (doc, database option) io" where
  "post_contact str_exc payload =
     try_except
       (bind_io (create_document ''contactinquiry'' payload) (\<lambda>_.
        return_io [(''status'', Str ''received'')]))
       (\<lambda>e. raise_io (HTTPException 500 (str_exc e)))"

text \<open>
  The route \<^verbatim>\<open>POST /contact\<close>. Its handler is declared with \<^verbatim>\<open>payload: ContactInquiry\<close>:
  the framework builds the payload from the request body before it calls the handler,
  and a body that does not validate is answered with a request validation error
  without the handler being called. The schema \<^verbatim>\<open>ContactInquiry\<close>, whose fields the
  sources do not give, is a parameter.
\<close>

definition contact_route ::
  "schema \<Rightarrow> (exn \<Rightarrow> string) \<Rightarrow> doc \<Rightarrow> (doc, database option) io" where
  "contact_route ContactInquiry str_exc body db =
     (case construct ContactInquiry body of
        Inl (ValidationError fs) \<Rightarrow> (Inl (RequestValidationError fs), db)
      | Inl e \<Rightarrow> (Inl e, db)
      | Inr payload \<Rightarrow> post_contact str_exc payload db)"

text \<open>
  The status of the HTTP response the framework sends for a handler's outcome: 200
  for a returned value, the status of an \<^verbatim>\<open>HTTPException\<close>, 422 for a request that did
  not validate, and 500 for any other exception that leaves the handler.
\<close>

fun status_code :: "exn + 'a \<Rightarrow> nat" where
  "status_code (Inr v) = 200"
| "status_code (Inl (HTTPException c d)) = c"
| "status_code (Inl (RequestValidationError fs)) = 422"
| "status_code (Inl e) = 500"

subsection \<open>Diagnostics\<close>

abbreviation check_mark :: string where
  "check_mark \<equiv> [CHR 0xE2, CHR 0x9C, CHR 0x85]"

abbreviation cross_mark :: string where
  "cross_mark \<equiv> [CHR 0xE2, CHR 0x9D, CHR 0x8C]"

abbreviation warning_sign :: string where
  "warning_sign \<equiv> [CHR 0xE2, CHR 0x9A, CHR 0xA0, CHR 0xEF, CHR 0xB8, CHR 0x8F]"

text \<open>\<^verbatim>\<open>response[k] = v\<close>\<close>

definition setitem :: "string \<Rightarrow> pyval \<Rightarrow> (unit, doc) io" where
  "setitem k v response = (Inr (), AList.update k v response)"

text \<open>A call that does not touch the response, inside the computation on it.\<close>

definition call :: "exn + 'a \<Rightarrow> ('a, 's) io" where
  "call r s = (r, s)"

text \<open>The truth value of \<^verbatim>\<open>os.getenv(k)\<close>: set, and not the empty string.\<close>

definition truthy :: "string option \<Rightarrow> bool" where
  "truthy v = (case v of None \<Rightarrow> False | Some s \<Rightarrow> s \<noteq> [])"

text \<open>The body of the outer \<^verbatim>\<open>try\<close> block of \<^verbatim>\<open>test_database\<close>.\<close>

definition test_try :: "(exn \<Rightarrow> string) \<Rightarrow> database option \<Rightarrow> (unit, doc) io" where
  "test_try str_exc db =
     (case db of
        Some d \<Rightarrow>
          bind_io (setitem ''database'' (Str (check_mark @ '' Available''))) (\<lambda>_.
          bind_io (setitem ''database_url'' (Str (check_mark @ '' Configured''))) (\<lambda>_.
          bind_io (setitem ''database_name''
                     (case db_name d of
                        Some n \<Rightarrow> Str n
                      | None \<Rightarrow> Str (check_mark @ '' Connected''))) (\<lambda>_.
          bind_io (setitem ''connection_status'' (Str ''Connected'')) (\<lambda>_.
          try_except
            (bind_io (call (list_collection_names d)) (\<lambda>collections.
             bind_io (setitem ''collections'' (StrList (take 10 collections))) (\<lambda>_.
             setitem ''database'' (Str (check_mark @ '' Connected & Working'')))))
            (\<lambda>e. setitem ''database''
                    (Str (warning_sign @ ''  Connected but Error: ''
                            @ take_chars 50 (str_exc e))))))))
      | None \<Rightarrow>
          setitem ''database'' (Str (warning_sign @ ''  Available but not initialized'')))"

definition test_database ::
  "(exn \<Rightarrow> string) \<Rightarrow> (string \<Rightarrow> string option) \<Rightarrow> database option \<Rightarrow> exn + doc" where
  "test_database str_exc getenv db =
     (case
        bind_io
          (try_except (test_try str_exc db)
             (\<lambda>e. setitem ''database''
                     (Str (cross_mark @ '' Error: '' @ take_chars 50 (str_exc e))))) (\<lambda>_.
        bind_io
          (setitem ''database_url''
             (Str (if truthy (getenv ''DATABASE_URL'') then check_mark @ '' Set''
                   else cross_mark @ '' Not Set''))) (\<lambda>_.
        setitem ''database_name''
          (Str (if truthy (getenv ''DATABASE_NAME'') then check_mark @ '' Set''
                else cross_mark @ '' Not Set''))))
          [(''backend'', Str (check_mark @ '' Running'')),
           (''database'', Str (cross_mark @ '' Not Available'')),
           (''database_url'', PyNone),
           (''database_name'', PyNone),
           (''connection_status'', Str ''Not Connected''),
           (''collections'', StrList [])]
      of
        (Inl e, response) \<Rightarrow> Inl e
      | (Inr _, response) \<Rightarrow> Inr response)"

subsection \<open>The text of an exception\<close>

text \<open>
  \<^verbatim>\<open>str\<close> of an \<^verbatim>\<open>HTTPException\<close> is the status code, a colon and the detail, as the
  class renders itself; the text of every other exception is left to \<open>other\<close>.
\<close>

function decimal :: "nat \<Rightarrow> string" where
  "decimal n =
     (if n < 10 then [char_of (48 + n)]
      else decimal (n div 10) @ [char_of (48 + n mod 10)])"
  by pat_completeness auto
termination
  by (relation "measure id") auto

declare decimal.simps [simp del]

definition http_str :: "(exn \<Rightarrow> string) \<Rightarrow> exn \<Rightarrow> string" where
  "http_str other e =
     (case e of HTTPException c d \<Rightarrow> decimal c @ '': '' @ d | _ \<Rightarrow> other e)"

subsection \<open>Notions used in the statements and proofs\<close>

text \<open>
  One block of \<^verbatim>\<open>seed_content\<close>: count the collection and insert the defaults when
  the count is zero.
\<close>

definition seed_collection :: "string \<Rightarrow> doc list \<Rightarrow> (unit, database option) io" where
  "seed_collection c xs =
     bind_io (count_documents c) (\<lambda>n.
       if n = 0 then for_each (create_document c) xs else return_io ())"

text \<open>The records \<open>xs\<close> as the store holds them when identifiers are assigned from \<open>n\<close> on.\<close>

fun with_ids :: "nat \<Rightarrow> doc list \<Rightarrow> doc list" where
  "with_ids n [] = []"
| "with_ids n (x # xs) = ((''_id'', ObjectId n) # x) # with_ids (Suc n) xs"

text \<open>The common shape of \<^verbatim>\<open>get_menu\<close>, \<^verbatim>\<open>get_testimonials\<close> and \<^verbatim>\<open>get_gallery\<close>.\<close>

definition read_endpoint :: "schema \<Rightarrow> string \<Rightarrow> database option \<Rightarrow> exn + doc list" where
  "read_endpoint sch c db =
     (case get_documents c db of
        Inl e \<Rightarrow> Inl e
      | Inr docs \<Rightarrow>
          comprehension
            (\<lambda>d. construct sch (filter (\<lambda>(k, v). k \<in> set (model_fields sch)) d)) docs)"

subsection \<open>Example stores and requests\<close>

text \<open>
  A rendering of exceptions that gives a storage failure its message, a store where
  no operation fails and one where every operation is refused, an environment with
  both database variables set, a store holding a menu item with an undeclared field,
  a store holding a menu item without its required fields, and a schema for the
  contact form.
\<close>

definition failure_text :: "exn \<Rightarrow> string" where
  "failure_text e = (case e of StorageError (Failure m) \<Rightarrow> m | _ \<Rightarrow> [])"

definition no_fault :: "store_op \<Rightarrow> string option" where
  "no_fault op = None"

definition refusing :: "store_op \<Rightarrow> string option" where
  "refusing op = Some ''connection refused''"

definition empty_db :: database where
  "empty_db = \<lparr>db_name = Some ''catering'', colls = [], next_id = 0, fault = no_fault\<rparr>"

definition down_db :: database where
  "down_db = \<lparr>db_name = Some ''catering'', colls = [], next_id = 0, fault = refusing\<rparr>"

definition configured_env :: "string \<Rightarrow> string option" where
  "configured_env k =
     (if k = ''DATABASE_URL'' then Some ''mongodb://localhost:27017''
      else if k = ''DATABASE_NAME'' then Some ''catering'' else None)"

definition legacy_db :: database where
  "legacy_db =
     \<lparr>db_name = Some ''catering'',
      colls = [(''menuitem'',
                [[(''_id'', ObjectId 7), (''title'', Str ''Soup''), (''description'', Str ''Hot''),
                  (''category'', Str ''Starters''), (''tags'', StrList []),
                  (''image_url'', Str ''http://example.org/soup.jpg''),
                  (''internal_note'', Str ''draft'')]])],
      next_id = 8, fault = no_fault\<rparr>"

definition partial_db :: database where
  "partial_db =
     \<lparr>db_name = Some ''catering'',
      colls = [(''menuitem'',
                [[(''_id'', ObjectId 0), (''title'', Str ''Soup''), (''description'', Str ''Hot''),
                  (''category'', Str ''Starters''), (''tags'', StrList []),
                  (''image_url'', Str ''http://example.org/soup.jpg'')],
                 [(''_id'', ObjectId 1), (''title'', Str ''Bread'')]])],
      next_id = 2, fault = no_fault\<rparr>"

definition inquiry_fields :: schema where
  "inquiry_fields = [required ''name'' TStr, required ''email'' TStr, required ''message'' TStr]"

section \<open>Properties\<close>

subsection \<open>Computations\<close>

lemmas io_defs = return_io_def raise_io_def bind_io_def try_except_def setitem_def call_def

lemma bind_io_assoc: "bind_io (bind_io m f) g = bind_io m (\<lambda>x. bind_io (f x) g)"
  by (rule ext) (simp add: bind_io_def split: prod.splits sum.splits)

lemma comprehension_Inr_D:
  "comprehension f xs = Inr ys \<Longrightarrow> list_all2 (\<lambda>x y. f x = Inr y) xs ys"
  by (induction xs arbitrary: ys) (auto split: sum.splits)

lemma comprehension_fails:
  "x \<in> set xs \<Longrightarrow> f x = Inl e \<Longrightarrow> \<exists>y\<in>set xs. \<exists>e'. f y = Inl e' \<and> comprehension f xs = Inl e'"
proof (induction xs)
  case Nil
  then show ?case by simp
next
  case (Cons a xs)
  show ?case
  proof (cases "f a")
    case (Inl e')
    then show ?thesis by auto
  next
    case (Inr y)
    then have "x \<in> set xs" using Cons.prems by auto
    from Cons.IH [OF this Cons.prems(2)] obtain z e' where
      "z \<in> set xs" "f z = Inl e'" "comprehension f xs = Inl e'" by blast
    then show ?thesis using Inr by auto
  qed
qed

lemma comprehension_total:
  "(\<forall>x\<in>set xs. \<exists>y. f x = Inr y) \<Longrightarrow> \<exists>ys. comprehension f xs = Inr ys"
  by (induction xs) auto

lemma decimal_500: "decimal 500 = ''500''"
  by code_simp

subsection \<open>The store\<close>

lemma docs_of_insert:
  "docs_of (d\<lparr>colls := AList.update c v (colls d), next_id := n\<rparr>) c' =
     (if c' = c then v else docs_of d c')"
  by (simp add: docs_of_def update_conv')

lemma create_document_other:
  "c' \<noteq> c \<Longrightarrow> stored (snd (create_document c x db)) c' = stored db c'"
  by (simp add: create_document_def stored_def docs_of_insert split: option.splits)

lemma for_each_create_other:
  "c' \<noteq> c \<Longrightarrow> stored (snd (for_each (create_document c) xs db)) c' = stored db c'"
proof (induction xs arbitrary: db)
  case Nil
  then show ?case by simp
next
  case (Cons x xs)
  show ?case
  proof (cases "create_document c x db")
    case (Pair r db')
    have "stored db' c' = stored db c'"
      using create_document_other [OF Cons.prems, of x db] Pair by simp
    then show ?thesis
      using Pair Cons.IH [OF Cons.prems, of db'] by (cases r) simp_all
  qed
qed

lemma count_documents_state: "snd (count_documents c db) = db"
  by (simp add: count_documents_def split: option.splits)

lemma count_documents_value:
  "count_documents c db = (Inr n, db') \<Longrightarrow> n = length (stored db c)"
  by (auto simp: count_documents_def stored_def split: option.splits)

lemma get_documents_Inr: "get_documents c db = Inr docs \<Longrightarrow> docs = stored db c"
  by (auto simp: get_documents_def stored_def split: option.splits)

lemma get_documents_Inl: "get_documents c db = Inl e \<Longrightarrow> \<exists>s. e = StorageError s"
  by (auto simp: get_documents_def split: option.splits)

lemma length_with_ids: "length (with_ids n xs) = length xs"
  by (induction xs arbitrary: n) simp_all

lemma for_each_create_ok:
  "fault d (Insert c) = None \<Longrightarrow>
   \<exists>d'. for_each (create_document c) xs (Some d) = (Inr (), Some d')
      \<and> fault d' = fault d
      \<and> (\<forall>c'. docs_of d' c' =
                 (if c' = c then docs_of d c @ with_ids (next_id d) xs else docs_of d c'))"
proof (induction xs arbitrary: d)
  case Nil
  then show ?case by simp
next
  case (Cons x xs)
  let ?d1 = "d\<lparr>colls := AList.update c (docs_of d c @ [(''_id'', ObjectId (next_id d)) # x]) (colls d),
                next_id := Suc (next_id d)\<rparr>"
  have step: "create_document c x (Some d) = (Inr (ObjectId (next_id d)), Some ?d1)"
    using Cons.prems by (simp add: create_document_def)
  have "fault ?d1 (Insert c) = None" using Cons.prems by simp
  from Cons.IH [OF this] obtain d' where
    run: "for_each (create_document c) xs (Some ?d1) = (Inr (), Some d')"
    and flt: "fault d' = fault ?d1"
    and docs: "\<forall>c'. docs_of d' c' =
                 (if c' = c then docs_of ?d1 c @ with_ids (next_id ?d1) xs else docs_of ?d1 c')"
    by blast
  have "for_each (create_document c) (x # xs) (Some d) = (Inr (), Some d')"
    using step run by simp
  moreover have "fault d' = fault d" using flt by simp
  moreover have "\<forall>c'. docs_of d' c' =
      (if c' = c then docs_of d c @ with_ids (next_id d) (x # xs) else docs_of d c')"
    using docs by (simp add: docs_of_insert)
  ultimately show ?case by blast
qed

subsection \<open>Seeding\<close>

lemma seed_try_Some:
  "seed_try (Some d) =
     bind_io (seed_collection ''menuitem'' menu_defaults) (\<lambda>_.
     bind_io (seed_collection ''testimonial'' testimonial_defaults) (\<lambda>_.
     bind_io (seed_collection ''galleryimage'' gallery_defaults) (\<lambda>_.
     return_io [(''status'', Str ''ok'')]))) (Some d)"
  by (simp add: seed_try_def seed_collection_def bind_io_assoc)

lemma seed_collection_keeps:
  assumes "stored db c' \<noteq> []"
  shows "stored (snd (seed_collection c xs db)) c' = stored db c'"
proof (cases "count_documents c db")
  case (Pair r db1)
  have db1: "db1 = db"
    using count_documents_state [of c db] Pair by simp
  show ?thesis
  proof (cases r)
    case (Inl e)
    then show ?thesis using Pair db1 by (simp add: seed_collection_def bind_io_def)
  next
    case (Inr n)
    have n: "n = length (stored db c)"
      using count_documents_value Pair Inr by blast
    show ?thesis
    proof (cases "n = 0")
      case True
      then have "c' \<noteq> c" using n assms by auto
      then show ?thesis
        using Pair Inr db1 True for_each_create_other [of c' c xs db]
        by (simp add: seed_collection_def bind_io_def)
    next
      case False
      then show ?thesis
        using Pair Inr db1 by (simp add: seed_collection_def bind_io_def return_io_def)
    qed
  qed
qed

lemma bind_io_keeps:
  assumes m: "\<And>db. stored db c \<noteq> [] \<Longrightarrow> stored (snd (m db)) c = stored db c"
    and f: "\<And>x db. stored db c \<noteq> [] \<Longrightarrow> stored (snd (f x db)) c = stored db c"
    and ne: "stored db c \<noteq> []"
  shows "stored (snd (bind_io m f db)) c = stored db c"
proof (cases "m db")
  case (Pair r db')
  have eq: "stored db' c = stored db c" using m [OF ne] Pair by simp
  show ?thesis
  proof (cases r)
    case (Inl e)
    then show ?thesis using Pair eq by (simp add: bind_io_def)
  next
    case (Inr a)
    have "stored (snd (f a db')) c = stored db' c" using f [of db' a] eq ne by simp
    then show ?thesis using Pair Inr eq by (simp add: bind_io_def)
  qed
qed

lemma seed_try_keeps:
  assumes "stored db c \<noteq> []"
  shows "stored (snd (seed_try db)) c = stored db c"
proof (cases db)
  case None
  then show ?thesis by (simp add: seed_try_def raise_io_def)
next
  case (Some d)
  show ?thesis
    unfolding Some seed_try_Some
    using assms [unfolded Some]
    by (intro bind_io_keeps seed_collection_keeps) (simp_all add: return_io_def)
qed

lemma seed_content_state: "snd (seed_content str_exc db) = snd (seed_try db)"
  by (simp add: seed_content_def try_except_def raise_io_def split: prod.splits sum.splits)

lemma seed_content_keeps:
  "stored db c \<noteq> [] \<Longrightarrow> stored (snd (seed_content str_exc db)) c = stored db c"
  by (simp add: seed_content_state seed_try_keeps)

lemma seed_collection_empty:
  assumes "\<forall>op. fault d op = None" and "docs_of d c = []"
  shows "\<exists>d'. seed_collection c xs (Some d) = (Inr (), Some d') \<and> (\<forall>op. fault d' op = None)
      \<and> (\<forall>c'. docs_of d' c' = (if c' = c then with_ids (next_id d) xs else docs_of d c'))"
proof -
  have "fault d (Insert c) = None" using assms(1) by simp
  from for_each_create_ok [OF this, of xs] obtain d' where
    run: "for_each (create_document c) xs (Some d) = (Inr (), Some d')"
    and flt: "fault d' = fault d"
    and docs: "\<forall>c'. docs_of d' c' =
                 (if c' = c then docs_of d c @ with_ids (next_id d) xs else docs_of d c')"
    by blast
  have "seed_collection c xs (Some d) = (Inr (), Some d')"
    using assms run by (simp add: seed_collection_def bind_io_def count_documents_def)
  moreover have "\<forall>op. fault d' op = None" using flt assms(1) by simp
  ultimately show ?thesis using docs assms(2) by auto
qed

lemma seed_collection_nonempty:
  assumes "\<forall>op. fault d op = None" and "docs_of d c \<noteq> []"
  shows "seed_collection c xs (Some d) = (Inr (), Some d)"
  using assms
  by (simp add: seed_collection_def bind_io_def count_documents_def return_io_def)

lemma seed_try_seeded:
  assumes h: "\<forall>op. fault d op = None"
    and e: "docs_of d ''menuitem'' = []" "docs_of d ''testimonial'' = []"
           "docs_of d ''galleryimage'' = []"
  shows "\<exists>d' n1 n2. seed_try (Some d) = (Inr [(''status'', Str ''ok'')], Some d')
      \<and> (\<forall>op. fault d' op = None)
      \<and> docs_of d' ''menuitem'' = with_ids (next_id d) menu_defaults
      \<and> docs_of d' ''testimonial'' = with_ids n1 testimonial_defaults
      \<and> docs_of d' ''galleryimage'' = with_ids n2 gallery_defaults"
proof -
  from seed_collection_empty [OF h e(1), of menu_defaults] obtain d1 where
    r1: "seed_collection ''menuitem'' menu_defaults (Some d) = (Inr (), Some d1)"
    and h1: "\<forall>op. fault d1 op = None"
    and d1: "\<forall>c'. docs_of d1 c' =
               (if c' = ''menuitem'' then with_ids (next_id d) menu_defaults else docs_of d c')"
    by blast
  have e1: "docs_of d1 ''testimonial'' = []" using d1 e by simp
  from seed_collection_empty [OF h1 e1, of testimonial_defaults] obtain d2 where
    r2: "seed_collection ''testimonial'' testimonial_defaults (Some d1) = (Inr (), Some d2)"
    and h2: "\<forall>op. fault d2 op = None"
    and d2: "\<forall>c'. docs_of d2 c' =
               (if c' = ''testimonial'' then with_ids (next_id d1) testimonial_defaults
                else docs_of d1 c')"
    by blast
  have e2: "docs_of d2 ''galleryimage'' = []" using d1 d2 e by simp
  from seed_collection_empty [OF h2 e2, of gallery_defaults] obtain d3 where
    r3: "seed_collection ''galleryimage'' gallery_defaults (Some d2) = (Inr (), Some d3)"
    and h3: "\<forall>op. fault d3 op = None"
    and d3: "\<forall>c'. docs_of d3 c' =
               (if c' = ''galleryimage'' then with_ids (next_id d2) gallery_defaults
                else docs_of d2 c')"
    by blast
  have run: "seed_try (Some d) = (Inr [(''status'', Str ''ok'')], Some d3)"
    using r1 r2 r3 by (simp add: seed_try_Some bind_io_def return_io_def)
  have m: "docs_of d3 ''menuitem'' = with_ids (next_id d) menu_defaults"
    using d1 d2 d3 by simp
  have t: "docs_of d3 ''testimonial'' = with_ids (next_id d1) testimonial_defaults"
    using d2 d3 by simp
  have g: "docs_of d3 ''galleryimage'' = with_ids (next_id d2) gallery_defaults"
    using d3 by simp
  show ?thesis using run h3 m t g by blast
qed

lemma seed_try_populated:
  assumes h: "\<forall>op. fault d op = None"
    and e: "docs_of d ''menuitem'' \<noteq> []" "docs_of d ''testimonial'' \<noteq> []"
           "docs_of d ''galleryimage'' \<noteq> []"
  shows "seed_try (Some d) = (Inr [(''status'', Str ''ok'')], Some d)"
  using seed_collection_nonempty [OF h e(1)] seed_collection_nonempty [OF h e(2)]
    seed_collection_nonempty [OF h e(3)]
  by (simp add: seed_try_Some bind_io_def return_io_def)

lemma seed_content_ok:
  "seed_try db = (Inr v, db') \<Longrightarrow> seed_content str_exc db = (Inr v, db')"
  by (simp add: seed_content_def try_except_def)

lemma seed_content_error:
  "seed_try db = (Inl e, db') \<Longrightarrow>
   seed_content str_exc db = (Inl (HTTPException 500 (str_exc e)), db')"
  by (simp add: seed_content_def try_except_def raise_io_def)

lemma length_menu_defaults: "length menu_defaults = 3"
  by (simp add: menu_defaults_def)

lemma length_testimonial_defaults: "length testimonial_defaults = 3"
  by (simp add: testimonial_defaults_def)

lemma length_gallery_defaults: "length gallery_defaults = 6"
  by (simp add: gallery_defaults_def)

subsection \<open>Schemas and the read endpoints\<close>

lemma map_of_filter_keys:
  "map_of (filter (\<lambda>(k, v). k \<in> S) d) k = (if k \<in> S then map_of d k else None)"
  by (induction d) auto

lemma field_error_filter:
  "f \<in> set sch \<Longrightarrow>
   field_error (filter (\<lambda>(k, v). k \<in> set (model_fields sch)) d) f = field_error d f"
  by (simp add: field_error_def map_of_filter_keys model_fields_def)

lemma construct_Inr:
  "construct sch kw = Inr item \<longleftrightarrow>
     (\<forall>f\<in>set sch. \<not> field_error kw f) \<and> item = map (\<lambda>f. (field_name f, field_value kw f)) sch"
  by (auto simp: construct_def filter_empty_conv)

lemma construct_Inl:
  "f \<in> set sch \<Longrightarrow> field_error kw f \<Longrightarrow>
   construct sch kw = Inl (ValidationError (map field_name (filter (field_error kw) sch)))"
  by (auto simp: construct_def filter_empty_conv)

lemma map_of_constructed:
  "f \<in> set sch \<Longrightarrow>
   \<exists>g\<in>set sch. field_name g = field_name f \<and>
      map_of (map (\<lambda>f. (field_name f, field_value kw f)) sch) (field_name f)
        = Some (field_value kw g)"
  by (induction sch) auto

lemma construct_echo:
  assumes req: "\<forall>f\<in>set sch. field_default f = None"
    and ok: "construct sch (filter (\<lambda>(k, v). k \<in> set (model_fields sch)) d) = Inr item"
  shows "map fst item = model_fields sch"
    and "\<forall>k\<in>set (model_fields sch). map_of item k = map_of d k"
    and "\<forall>f\<in>set sch. \<exists>v. map_of d (field_name f) = Some v \<and> well_typed (field_type f) v"
proof -
  let ?kw = "filter (\<lambda>(k, v). k \<in> set (model_fields sch)) d"
  have item: "item = map (\<lambda>f. (field_name f, field_value ?kw f)) sch"
    and noerr: "\<forall>f\<in>set sch. \<not> field_error ?kw f"
    using ok by (simp_all add: construct_Inr)
  show "map fst item = model_fields sch"
    by (simp add: item model_fields_def comp_def)
  show present: "\<forall>f\<in>set sch. \<exists>v. map_of d (field_name f) = Some v \<and> well_typed (field_type f) v"
  proof
    fix f assume f: "f \<in> set sch"
    then have "\<not> field_error d f" using noerr field_error_filter by blast
    then show "\<exists>v. map_of d (field_name f) = Some v \<and> well_typed (field_type f) v"
      using req f by (auto simp: field_error_def split: option.splits)
  qed
  show "\<forall>k\<in>set (model_fields sch). map_of item k = map_of d k"
  proof
    fix k assume "k \<in> set (model_fields sch)"
    then obtain f where f: "f \<in> set sch" and k: "k = field_name f"
      by (auto simp: model_fields_def)
    from map_of_constructed [OF f, of ?kw] obtain g where
      g: "g \<in> set sch" "field_name g = field_name f"
      and m: "map_of item (field_name f) = Some (field_value ?kw g)"
      unfolding item by blast
    from present g obtain v where v: "map_of d (field_name g) = Some v" by blast
    have "field_value ?kw g = v"
      using v g(1) by (simp add: field_value_def map_of_filter_keys model_fields_def)
    then show "map_of item k = map_of d k" using m v g(2) k by simp
  qed
qed

lemma read_endpoints:
  assumes "(handler, sch, c) \<in>
     {(get_menu, MenuItem, ''menuitem''), (get_testimonials, Testimonial, ''testimonial''),
      (get_gallery, GalleryImage, ''galleryimage'')}"
  shows "handler = read_endpoint sch c"
    and "\<forall>f\<in>set sch. field_default f = None"
    and "''_id'' \<notin> set (model_fields sch)"
proof -
  show "handler = read_endpoint sch c"
    using assms
    by (auto simp: fun_eq_iff read_endpoint_def get_menu_def get_testimonials_def get_gallery_def)
  show "\<forall>f\<in>set sch. field_default f = None"
    using assms by (auto simp: MenuItem_def Testimonial_def GalleryImage_def required_def)
  show "''_id'' \<notin> set (model_fields sch)"
    using assms
    by (auto simp: MenuItem_def Testimonial_def GalleryImage_def required_def model_fields_def)
qed

lemma read_endpoint_Inr:
  assumes "read_endpoint sch c db = Inr items"
  shows "get_documents c db = Inr (stored db c)"
    and "list_all2 (\<lambda>d item. construct sch (filter (\<lambda>(k, v). k \<in> set (model_fields sch)) d) = Inr item)
           (stored db c) items"
proof -
  from assms obtain docs where g: "get_documents c db = Inr docs"
    by (auto simp: read_endpoint_def split: sum.splits)
  then have docs: "docs = stored db c" by (rule get_documents_Inr)
  show "get_documents c db = Inr (stored db c)" using g docs by simp
  show "list_all2 (\<lambda>d item. construct sch (filter (\<lambda>(k, v). k \<in> set (model_fields sch)) d) = Inr item)
           (stored db c) items"
    using assms g docs by (simp add: read_endpoint_def comprehension_Inr_D)
qed

lemma read_endpoint_echo:
  assumes req: "\<forall>f\<in>set sch. field_default f = None"
    and ok: "read_endpoint sch c db = Inr items"
  shows "list_all2 (\<lambda>d item. map fst item = model_fields sch
            \<and> (\<forall>k\<in>set (model_fields sch). map_of item k = map_of d k)
            \<and> (\<forall>f\<in>set sch. \<exists>v. map_of d (field_name f) = Some v \<and> well_typed (field_type f) v))
           (stored db c) items"
  using read_endpoint_Inr(2) [OF ok]
  by (rule list_all2_mono) (use construct_echo [OF req] in blast)

lemma read_endpoint_total:
  assumes "db = Some d" "fault d (Find c) = None"
    and "\<forall>doc\<in>set (stored db c). \<forall>f\<in>set sch. \<not> field_error doc f"
  shows "\<exists>items. read_endpoint sch c db = Inr items"
proof -
  have g: "get_documents c db = Inr (stored db c)"
    using assms(1,2) by (simp add: get_documents_def stored_def)
  have "\<forall>doc\<in>set (stored db c). \<exists>y.
          construct sch (filter (\<lambda>(k, v). k \<in> set (model_fields sch)) doc) = Inr y"
    using assms(3) by (simp add: construct_Inr field_error_filter)
  from comprehension_total [OF this] show ?thesis
    using g by (simp add: read_endpoint_def)
qed

lemma read_endpoint_fails:
  assumes "doc \<in> set (stored db c)" "f \<in> set sch" "field_error doc f"
  shows "\<exists>e. read_endpoint sch c db = Inl e \<and> status_code (read_endpoint sch c db :: exn + doc list) = 500"
proof (cases "get_documents c db")
  case (Inl e)
  then show ?thesis using get_documents_Inl [OF Inl] by (auto simp: read_endpoint_def)
next
  case (Inr docs)
  then have docs: "docs = stored db c" by (rule get_documents_Inr)
  let ?shape = "\<lambda>d. construct sch (filter (\<lambda>(k, v). k \<in> set (model_fields sch)) d)"
  have "field_error (filter (\<lambda>(k, v). k \<in> set (model_fields sch)) doc) f"
    using assms(2,3) by (simp add: field_error_filter)
  from construct_Inl [OF assms(2) this] have "\<exists>e. ?shape doc = Inl e" by blast
  then obtain e0 where "?shape doc = Inl e0" by blast
  from comprehension_fails [of doc "stored db c" ?shape, OF assms(1) this]
  obtain y e' where y: "?shape y = Inl e'" and c: "comprehension ?shape (stored db c) = Inl e'"
    by blast
  have "\<exists>fs. e' = ValidationError fs"
    using y by (auto simp: construct_def split: if_splits)
  then show ?thesis using Inr docs c by (auto simp: read_endpoint_def)
qed

lemma read_endpoint_propagates:
  "get_documents c db = Inl e \<Longrightarrow>
   read_endpoint sch c db = Inl e \<and> status_code (read_endpoint sch c db) = 500"
  using get_documents_Inl [of c db e] by (auto simp: read_endpoint_def)

lemma get_menu_seeded:
  assumes "fault d (Find ''menuitem'') = None"
    and "docs_of d ''menuitem'' = with_ids n menu_defaults"
  shows "get_menu (Some d) = Inr menu_defaults"
  using assms
  by (simp add: get_menu_def get_documents_def menu_defaults_def construct_def MenuItem_def
      required_def model_fields_def field_error_def field_value_def)

lemma get_gallery_seeded:
  assumes "fault d (Find ''galleryimage'') = None"
    and "docs_of d ''galleryimage'' = with_ids n gallery_defaults"
  shows "get_gallery (Some d) = Inr gallery_defaults"
  using assms
  by (simp add: get_gallery_def get_documents_def gallery_defaults_def construct_def
      GalleryImage_def required_def model_fields_def field_error_def field_value_def)

subsection \<open>Contact and diagnostics\<close>

lemma post_contact_cases:
  "post_contact str_exc payload db =
     (case create_document ''contactinquiry'' payload db of
        (Inl e, db') \<Rightarrow> (Inl (HTTPException 500 (str_exc e)), db')
      | (Inr i, db') \<Rightarrow> (Inr [(''status'', Str ''received'')], db'))"
  by (simp add: post_contact_def io_defs split: prod.splits sum.splits)

lemma test_database_response:
  "test_database str_exc getenv db =
     Inr [(''backend'', Str (check_mark @ '' Running'')),
          (''database'',
           Str (case db of
                  None \<Rightarrow> warning_sign @ ''  Available but not initialized''
                | Some d \<Rightarrow>
                    (case list_collection_names d of
                       Inl e \<Rightarrow> warning_sign @ ''  Connected but Error: ''
                                  @ take_chars 50 (str_exc e)
                     | Inr ns \<Rightarrow> check_mark @ '' Connected & Working''))),
          (''database_url'',
           Str (if truthy (getenv ''DATABASE_URL'') then check_mark @ '' Set''
                else cross_mark @ '' Not Set'')),
          (''database_name'',
           Str (if truthy (getenv ''DATABASE_NAME'') then check_mark @ '' Set''
                else cross_mark @ '' Not Set'')),
          (''connection_status'',
           Str (case db of None \<Rightarrow> ''Not Connected'' | Some d \<Rightarrow> ''Connected'')),
          (''collections'',
           StrList (case db of
                      None \<Rightarrow> []
                    | Some d \<Rightarrow>
                        (case list_collection_names d of
                           Inl e \<Rightarrow> []
                         | Inr ns \<Rightarrow> take 10 ns)))]"
  by (simp add: test_database_def test_try_def io_defs split: option.splits sum.splits)

section \<open>The claims\<close>

text \<open>
  C1. Seeding is idempotent. On a store where no operation fails and the three seeded
  collections are empty, two calls of \<^verbatim>\<open>POST /seed\<close> in sequence both answer
  \<^verbatim>\<open>{"status": "ok"}\<close> and leave exactly 3 menu items, 3 testimonials and 6 gallery
  images; and on any store, whatever fails, a call of \<^verbatim>\<open>POST /seed\<close> leaves every
  collection that was not empty as it was.
\<close>

theorem seed_idempotent:
  "((\<forall>op. fault d op = None) \<and> stored (Some d) ''menuitem'' = []
      \<and> stored (Some d) ''testimonial'' = [] \<and> stored (Some d) ''galleryimage'' = []
    \<longrightarrow> fst (seed_content str_exc (Some d)) = Inr [(''status'', Str ''ok'')]
      \<and> fst (seed_content str_exc (snd (seed_content str_exc (Some d))))
          = Inr [(''status'', Str ''ok'')]
      \<and> length (stored (snd (seed_content str_exc (snd (seed_content str_exc (Some d)))))
                 ''menuitem'') = 3
      \<and> length (stored (snd (seed_content str_exc (snd (seed_content str_exc (Some d)))))
                 ''testimonial'') = 3
      \<and> length (stored (snd (seed_content str_exc (snd (seed_content str_exc (Some d)))))
                 ''galleryimage'') = 6)
   \<and> (stored db c \<noteq> [] \<longrightarrow> stored (snd (seed_content str_exc db)) c = stored db c)"
proof (intro conjI impI)
  show "stored (snd (seed_content str_exc db)) c = stored db c" if "stored db c \<noteq> []"
    using that by (rule seed_content_keeps)
next
  assume a: "(\<forall>op. fault d op = None) \<and> stored (Some d) ''menuitem'' = []
      \<and> stored (Some d) ''testimonial'' = [] \<and> stored (Some d) ''galleryimage'' = []"
  then have h: "\<forall>op. fault d op = None"
    and e: "docs_of d ''menuitem'' = []" "docs_of d ''testimonial'' = []"
           "docs_of d ''galleryimage'' = []"
    by (simp_all add: stored_def)
  from seed_try_seeded [OF h e] obtain d' n1 n2 where
    run: "seed_try (Some d) = (Inr [(''status'', Str ''ok'')], Some d')"
    and h': "\<forall>op. fault d' op = None"
    and m: "docs_of d' ''menuitem'' = with_ids (next_id d) menu_defaults"
    and t: "docs_of d' ''testimonial'' = with_ids n1 testimonial_defaults"
    and g: "docs_of d' ''galleryimage'' = with_ids n2 gallery_defaults"
    by blast
  have first: "seed_content str_exc (Some d) = (Inr [(''status'', Str ''ok'')], Some d')"
    using run by (rule seed_content_ok)
  have lens: "length (docs_of d' ''menuitem'') = 3" "length (docs_of d' ''testimonial'') = 3"
    "length (docs_of d' ''galleryimage'') = 6"
    by (simp_all add: m t g length_with_ids length_menu_defaults length_testimonial_defaults
        length_gallery_defaults)
  then have ne: "docs_of d' ''menuitem'' \<noteq> []" "docs_of d' ''testimonial'' \<noteq> []"
    "docs_of d' ''galleryimage'' \<noteq> []"
    by auto
  have second: "seed_content str_exc (Some d') = (Inr [(''status'', Str ''ok'')], Some d')"
    using seed_try_populated [OF h' ne] by (rule seed_content_ok)
  show "fst (seed_content str_exc (Some d)) = Inr [(''status'', Str ''ok'')]"
    using first by simp
  show "fst (seed_content str_exc (snd (seed_content str_exc (Some d))))
          = Inr [(''status'', Str ''ok'')]"
    using first second by simp
  show "length (stored (snd (seed_content str_exc (snd (seed_content str_exc (Some d)))))
                 ''menuitem'') = 3"
    using first second lens by (simp add: stored_def)
  show "length (stored (snd (seed_content str_exc (snd (seed_content str_exc (Some d)))))
                 ''testimonial'') = 3"
    using first second lens by (simp add: stored_def)
  show "length (stored (snd (seed_content str_exc (snd (seed_content str_exc (Some d)))))
                 ''galleryimage'') = 6"
    using first second lens by (simp add: stored_def)
qed

theorem seed_idempotent_witness:
  "length (stored (snd (seed_content failure_text (snd (seed_content failure_text (Some empty_db)))))
             ''menuitem'') = 3
   \<and> length (stored (snd (seed_content failure_text (snd (seed_content failure_text (Some empty_db)))))
             ''testimonial'') = 3
   \<and> length (stored (snd (seed_content failure_text (snd (seed_content failure_text (Some empty_db)))))
             ''galleryimage'') = 6
   \<and> stored (Some legacy_db) ''menuitem'' \<noteq> []
   \<and> stored (snd (seed_content failure_text (Some legacy_db))) ''menuitem''
       = stored (Some legacy_db) ''menuitem''"
proof -
  have e: "(\<forall>op. fault empty_db op = None) \<and> stored (Some empty_db) ''menuitem'' = []
      \<and> stored (Some empty_db) ''testimonial'' = [] \<and> stored (Some empty_db) ''galleryimage'' = []"
    by (simp add: empty_db_def no_fault_def stored_def docs_of_def)
  have n: "stored (Some legacy_db) ''menuitem'' \<noteq> []"
    by (simp add: legacy_db_def stored_def docs_of_def)
  show ?thesis
    using seed_idempotent [of empty_db failure_text "Some legacy_db" "''menuitem''"] e n
    by simp
qed

text \<open>
  C2, as amended. \<^verbatim>\<open>POST /seed\<close> and \<^verbatim>\<open>POST /contact\<close> catch every failure of
  the storage adapter and answer with a 500 whose detail is the text of the failure.
  \<^verbatim>\<open>GET /menu\<close>, \<^verbatim>\<open>GET /testimonials\<close> and \<^verbatim>\<open>GET /gallery\<close> have no handler
  around the read: a failure of \<^verbatim>\<open>get_documents\<close> leaves them as the adapter's own
  exception, which the framework answers with status 500.
\<close>

theorem storage_failures_by_handler:
  "(fst (seed_try db) = Inl e \<longrightarrow>
      fst (seed_content str_exc db) = Inl (HTTPException 500 (str_exc e)))
   \<and> (fst (create_document ''contactinquiry'' payload db) = Inl e \<longrightarrow>
      fst (post_contact str_exc payload db) = Inl (HTTPException 500 (str_exc e)))
   \<and> (get_documents ''menuitem'' db = Inl e \<longrightarrow>
      get_menu db = Inl e \<and> status_code (get_menu db) = 500)
   \<and> (get_documents ''testimonial'' db = Inl e \<longrightarrow>
      get_testimonials db = Inl e \<and> status_code (get_testimonials db) = 500)
   \<and> (get_documents ''galleryimage'' db = Inl e \<longrightarrow>
      get_gallery db = Inl e \<and> status_code (get_gallery db) = 500)"
proof (intro conjI impI)
  show "fst (seed_content str_exc db) = Inl (HTTPException 500 (str_exc e))"
    if "fst (seed_try db) = Inl e"
    using that seed_content_error [of db e "snd (seed_try db)" str_exc]
    by (cases "seed_try db") simp
  show "fst (post_contact str_exc payload db) = Inl (HTTPException 500 (str_exc e))"
    if "fst (create_document ''contactinquiry'' payload db) = Inl e"
    using that by (cases "create_document ''contactinquiry'' payload db")
      (simp add: post_contact_cases)
  have m: "get_menu = read_endpoint MenuItem ''menuitem''"
    by (rule read_endpoints(1)) simp
  have t: "get_testimonials = read_endpoint Testimonial ''testimonial''"
    by (rule read_endpoints(1)) simp
  have g: "get_gallery = read_endpoint GalleryImage ''galleryimage''"
    by (rule read_endpoints(1)) simp
  show "get_menu db = Inl e" "status_code (get_menu db) = 500"
    if "get_documents ''menuitem'' db = Inl e"
    using read_endpoint_propagates [OF that, of MenuItem] unfolding m by blast+
  show "get_testimonials db = Inl e" "status_code (get_testimonials db) = 500"
    if "get_documents ''testimonial'' db = Inl e"
    using read_endpoint_propagates [OF that, of Testimonial] unfolding t by blast+
  show "get_gallery db = Inl e" "status_code (get_gallery db) = 500"
    if "get_documents ''galleryimage'' db = Inl e"
    using read_endpoint_propagates [OF that, of GalleryImage] unfolding g by blast+
qed

theorem storage_failures_by_handler_witness:
  "fst (seed_try (Some down_db)) = Inl (StorageError (Failure ''connection refused''))
   \<and> fst (seed_content failure_text (Some down_db)) = Inl (HTTPException 500 ''connection refused'')
   \<and> fst (create_document ''contactinquiry'' [(''name'', Str ''Ada'')] (Some down_db))
       = Inl (StorageError (Failure ''connection refused''))
   \<and> fst (post_contact failure_text [(''name'', Str ''Ada'')] (Some down_db))
       = Inl (HTTPException 500 ''connection refused'')
   \<and> get_documents ''menuitem'' (Some down_db) = Inl (StorageError (Failure ''connection refused''))
   \<and> get_menu (Some down_db) = Inl (StorageError (Failure ''connection refused''))
   \<and> get_documents ''testimonial'' (Some down_db) = Inl (StorageError (Failure ''connection refused''))
   \<and> get_testimonials (Some down_db) = Inl (StorageError (Failure ''connection refused''))
   \<and> get_documents ''galleryimage'' (Some down_db) = Inl (StorageError (Failure ''connection refused''))
   \<and> get_gallery (Some down_db) = Inl (StorageError (Failure ''connection refused''))"
proof -
  have s: "fst (seed_try (Some down_db)) = Inl (StorageError (Failure ''connection refused''))"
    by (simp add: seed_try_def bind_io_def count_documents_def down_db_def refusing_def)
  have c: "fst (create_document ''contactinquiry'' [(''name'', Str ''Ada'')] (Some down_db))
       = Inl (StorageError (Failure ''connection refused''))"
    by (simp add: create_document_def down_db_def refusing_def)
  have g: "get_documents ''menuitem'' (Some down_db) = Inl (StorageError (Failure ''connection refused''))"
    "get_documents ''testimonial'' (Some down_db) = Inl (StorageError (Failure ''connection refused''))"
    "get_documents ''galleryimage'' (Some down_db) = Inl (StorageError (Failure ''connection refused''))"
    by (simp_all add: get_documents_def down_db_def refusing_def)
  have f: "failure_text (StorageError (Failure ''connection refused'')) = ''connection refused''"
    by (simp add: failure_text_def)
  show ?thesis
    using storage_failures_by_handler [of "Some down_db"
        "StorageError (Failure ''connection refused'')" failure_text "[(''name'', Str ''Ada'')]"]
      s c g f
    by simp
qed

text \<open>
  On a store that refuses every operation \<^verbatim>\<open>get_menu\<close> raises the storage error
  itself, not an \<^verbatim>\<open>HTTPException\<close> carrying its text.
\<close>

theorem read_failure_counterexample:
  "get_documents ''menuitem'' (Some down_db) = Inl (StorageError (Failure ''connection refused''))
   \<and> get_menu (Some down_db) = Inl (StorageError (Failure ''connection refused''))
   \<and> get_menu (Some down_db)
       \<noteq> Inl (HTTPException 500 (failure_text (StorageError (Failure ''connection refused''))))"
  by (simp add: get_menu_def get_documents_def down_db_def refusing_def)

text \<open>
  C3. Schema filtering on reads. Whenever one of the three read endpoints returns, it
  returns one item per stored document, in order, and each item has exactly the
  declared fields of its schema, with the document's values for them; no other key of
  the document, the store-assigned \<^verbatim>\<open>_id\<close> included, is in the item. The endpoint does
  return when the read does not fail and every stored document supplies the declared
  fields with well-typed values.
\<close>

theorem read_strips_undeclared_fields:
  assumes "(handler, sch, c) \<in>
     {(get_menu, MenuItem, ''menuitem''), (get_testimonials, Testimonial, ''testimonial''),
      (get_gallery, GalleryImage, ''galleryimage'')}"
  shows "(handler db = Inr items \<longrightarrow>
            list_all2 (\<lambda>d item. map fst item = model_fields sch
                         \<and> (\<forall>k\<in>set (model_fields sch). map_of item k = map_of d k)
                         \<and> map_of item ''_id'' = None)
              (stored db c) items)
       \<and> ((\<exists>d. db = Some d \<and> fault d (Find c) = None)
            \<and> (\<forall>doc\<in>set (stored db c). \<forall>f\<in>set sch. \<not> field_error doc f)
          \<longrightarrow> (\<exists>items. handler db = Inr items))"
proof (intro conjI impI)
  note ep = read_endpoints [OF assms]
  {
    assume "handler db = Inr items"
    then have "read_endpoint sch c db = Inr items" using ep(1) by simp
    from read_endpoint_echo [OF ep(2) this]
    show "list_all2 (\<lambda>d item. map fst item = model_fields sch
                         \<and> (\<forall>k\<in>set (model_fields sch). map_of item k = map_of d k)
                         \<and> map_of item ''_id'' = None)
              (stored db c) items"
    proof (rule list_all2_mono)
      fix d item
      assume a: "map fst item = model_fields sch
            \<and> (\<forall>k\<in>set (model_fields sch). map_of item k = map_of d k)
            \<and> (\<forall>f\<in>set sch. \<exists>v. map_of d (field_name f) = Some v \<and> well_typed (field_type f) v)"
      then have "''_id'' \<notin> fst ` set item" using ep(3) by (metis set_map)
      then have "map_of item ''_id'' = None" by (simp add: map_of_eq_None_iff)
      then show "map fst item = model_fields sch
            \<and> (\<forall>k\<in>set (model_fields sch). map_of item k = map_of d k)
            \<and> map_of item ''_id'' = None" using a by simp
    qed
  }
  {
    assume "(\<exists>d. db = Some d \<and> fault d (Find c) = None)
            \<and> (\<forall>doc\<in>set (stored db c). \<forall>f\<in>set sch. \<not> field_error doc f)"
    then show "\<exists>items. handler db = Inr items"
      using read_endpoint_total [of db _ c sch] ep(1) by auto
  }
qed

theorem read_strips_undeclared_fields_witness:
  "(get_menu, MenuItem, ''menuitem'') \<in>
     {(get_menu, MenuItem, ''menuitem''), (get_testimonials, Testimonial, ''testimonial''),
      (get_gallery, GalleryImage, ''galleryimage'')}
   \<and> get_menu (Some legacy_db) =
       Inr [[(''title'', Str ''Soup''), (''description'', Str ''Hot''),
             (''category'', Str ''Starters''), (''tags'', StrList []),
             (''image_url'', Str ''http://example.org/soup.jpg'')]]
   \<and> list_all2 (\<lambda>d item. map fst item = model_fields MenuItem
                  \<and> (\<forall>k\<in>set (model_fields MenuItem). map_of item k = map_of d k)
                  \<and> map_of item ''_id'' = None)
        (stored (Some legacy_db) ''menuitem'')
        [[(''title'', Str ''Soup''), (''description'', Str ''Hot''),
          (''category'', Str ''Starters''), (''tags'', StrList []),
          (''image_url'', Str ''http://example.org/soup.jpg'')]]
   \<and> (\<exists>d. Some legacy_db = Some d \<and> fault d (Find ''menuitem'') = None)
   \<and> list_all (\<lambda>doc. list_all (\<lambda>f. \<not> field_error doc f) MenuItem)
        (stored (Some legacy_db) ''menuitem'')
   \<and> (\<exists>items. get_menu (Some legacy_db) = Inr items)"
proof -
  have m: "(get_menu, MenuItem, ''menuitem'') \<in>
     {(get_menu, MenuItem, ''menuitem''), (get_testimonials, Testimonial, ''testimonial''),
      (get_gallery, GalleryImage, ''galleryimage'')}"
    by simp
  have r: "get_menu (Some legacy_db) =
       Inr [[(''title'', Str ''Soup''), (''description'', Str ''Hot''),
             (''category'', Str ''Starters''), (''tags'', StrList []),
             (''image_url'', Str ''http://example.org/soup.jpg'')]]"
    by (simp add: get_menu_def get_documents_def legacy_db_def no_fault_def docs_of_def
        construct_def MenuItem_def required_def model_fields_def field_error_def field_value_def)
  have f: "\<exists>d. Some legacy_db = Some d \<and> fault d (Find ''menuitem'') = None"
    by (simp add: legacy_db_def no_fault_def)
  have v: "\<forall>doc\<in>set (stored (Some legacy_db) ''menuitem''). \<forall>f\<in>set MenuItem. \<not> field_error doc f"
    by (simp add: stored_def docs_of_def legacy_db_def MenuItem_def required_def field_error_def)
  have v': "list_all (\<lambda>doc. list_all (\<lambda>f. \<not> field_error doc f) MenuItem)
        (stored (Some legacy_db) ''menuitem'')"
    using v by (simp add: list_all_iff)
  from read_strips_undeclared_fields [OF m, of "Some legacy_db"] r f v v' m
  show ?thesis by blast
qed

text \<open>
  C4. A body of \<^verbatim>\<open>POST /contact\<close> that lacks a required field of the schema is
  answered with status 422, not 500, and the store is left as it was: no record is
  added to the collection \<^verbatim>\<open>contactinquiry\<close>.
\<close>

theorem contact_rejects_invalid:
  assumes "f \<in> set ContactInquiry" and "field_default f = None"
    and "map_of body (field_name f) = None"
  shows "status_code (fst (contact_route ContactInquiry str_exc body db)) = 422
     \<and> snd (contact_route ContactInquiry str_exc body db) = db
     \<and> stored (snd (contact_route ContactInquiry str_exc body db)) ''contactinquiry''
         = stored db ''contactinquiry''"
proof -
  have "field_error body f" using assms(2,3) by (simp add: field_error_def)
  from construct_Inl [OF assms(1) this] show ?thesis
    by (simp add: contact_route_def)
qed

theorem contact_rejects_invalid_witness:
  "required ''email'' TStr \<in> set inquiry_fields
   \<and> field_default (required ''email'' TStr) = None
   \<and> map_of [(''name'', Str ''Ada''), (''message'', Str ''Dinner for ten'')]
        (field_name (required ''email'' TStr)) = None
   \<and> status_code (fst (contact_route inquiry_fields failure_text
        [(''name'', Str ''Ada''), (''message'', Str ''Dinner for ten'')] (Some empty_db))) = 422
   \<and> snd (contact_route inquiry_fields failure_text
        [(''name'', Str ''Ada''), (''message'', Str ''Dinner for ten'')] (Some empty_db))
       = Some empty_db"
proof -
  have a: "required ''email'' TStr \<in> set inquiry_fields"
    "field_default (required ''email'' TStr) = None"
    "map_of [(''name'', Str ''Ada''), (''message'', Str ''Dinner for ten'')]
        (field_name (required ''email'' TStr)) = None"
    by (simp_all add: inquiry_fields_def required_def)
  from contact_rejects_invalid [OF a, of failure_text "Some empty_db"] a
  show ?thesis by blast
qed

text \<open>
  C5. Seed-then-read round trip. After \<^verbatim>\<open>POST /seed\<close> on a store where no operation
  fails and the three seeded collections are empty, \<^verbatim>\<open>GET /menu\<close> returns exactly three
  items, with the titles, categories and tags of the three defaults in their order,
  and \<^verbatim>\<open>GET /gallery\<close> returns exactly 6 entries.
\<close>

theorem seed_then_read:
  assumes "\<forall>op. fault d op = None"
    and "stored (Some d) ''menuitem'' = []" and "stored (Some d) ''testimonial'' = []"
    and "stored (Some d) ''galleryimage'' = []"
  shows "fst (seed_content str_exc (Some d)) = Inr [(''status'', Str ''ok'')]
     \<and> (\<exists>menu. get_menu (snd (seed_content str_exc (Some d))) = Inr menu
           \<and> map (\<lambda>item. (map_of item ''title'', map_of item ''category'', map_of item ''tags'')) menu
             = [(Some (Str ''Black Truffle Arancini''),
                 Some (Str (''Canap'' @ [CHR 0xC3, CHR 0xA9] @ ''s'')),
                 Some (StrList [''vegetarian'', ''signature''])),
                (Some (Str ''Butter-Poached Lobster''), Some (Str ''Mains''),
                 Some (StrList [''seafood''])),
                (Some (Str ''Valrhona Chocolate Tart''), Some (Str ''Desserts''),
                 Some (StrList [''dessert'']))])
     \<and> (\<exists>gallery. get_gallery (snd (seed_content str_exc (Some d))) = Inr gallery
           \<and> length gallery = 6)"
proof -
  have e: "docs_of d ''menuitem'' = []" "docs_of d ''testimonial'' = []"
          "docs_of d ''galleryimage'' = []"
    using assms(2-4) by (simp_all add: stored_def)
  from seed_try_seeded [OF assms(1) e] obtain d' n1 n2 where
    run: "seed_try (Some d) = (Inr [(''status'', Str ''ok'')], Some d')"
    and h': "\<forall>op. fault d' op = None"
    and m: "docs_of d' ''menuitem'' = with_ids (next_id d) menu_defaults"
    and t: "docs_of d' ''testimonial'' = with_ids n1 testimonial_defaults"
    and g: "docs_of d' ''galleryimage'' = with_ids n2 gallery_defaults"
    by blast
  have first: "seed_content str_exc (Some d) = (Inr [(''status'', Str ''ok'')], Some d')"
    using run by (rule seed_content_ok)
  have menu: "get_menu (Some d') = Inr menu_defaults"
    using h' m by (intro get_menu_seeded) simp_all
  have gallery: "get_gallery (Some d') = Inr gallery_defaults"
    using h' g by (intro get_gallery_seeded) simp_all
  have titles: "map (\<lambda>item. (map_of item ''title'', map_of item ''category'', map_of item ''tags''))
        menu_defaults
      = [(Some (Str ''Black Truffle Arancini''),
          Some (Str (''Canap'' @ [CHR 0xC3, CHR 0xA9] @ ''s'')),
          Some (StrList [''vegetarian'', ''signature''])),
         (Some (Str ''Butter-Poached Lobster''), Some (Str ''Mains''),
          Some (StrList [''seafood''])),
         (Some (Str ''Valrhona Chocolate Tart''), Some (Str ''Desserts''),
          Some (StrList [''dessert'']))]"
    by (simp add: menu_defaults_def)
  show ?thesis
    using first menu gallery titles length_gallery_defaults by simp
qed

theorem seed_then_read_witness:
  "(\<forall>op. fault empty_db op = None)
   \<and> stored (Some empty_db) ''menuitem'' = [] \<and> stored (Some empty_db) ''testimonial'' = []
   \<and> stored (Some empty_db) ''galleryimage'' = []
   \<and> fst (seed_content failure_text (Some empty_db)) = Inr [(''status'', Str ''ok'')]
   \<and> (\<exists>gallery. get_gallery (snd (seed_content failure_text (Some empty_db))) = Inr gallery
         \<and> length gallery = 6)"
proof -
  have e: "\<forall>op. fault empty_db op = None" "stored (Some empty_db) ''menuitem'' = []"
    "stored (Some empty_db) ''testimonial'' = []" "stored (Some empty_db) ''galleryimage'' = []"
    by (simp_all add: empty_db_def no_fault_def stored_def docs_of_def)
  from seed_then_read [OF e, of failure_text] e show ?thesis by blast
qed

text \<open>
  C6. \<^verbatim>\<open>POST /contact\<close> with a body that validates answers \<^verbatim>\<open>{"status": "received"}\<close>
  and the validated record, with its identifier, is the last document of the collection
  \<^verbatim>\<open>contactinquiry\<close> when the insert succeeds; when \<^verbatim>\<open>create_document\<close> raises, the
  answer is a 500 whose detail is the text of what it raised.
\<close>

theorem contact_persists_or_500:
  assumes "construct ContactInquiry body = Inr payload"
  shows "(db = Some d \<and> fault d (Insert ''contactinquiry'') = None \<longrightarrow>
            fst (contact_route ContactInquiry str_exc body db) = Inr [(''status'', Str ''received'')]
          \<and> stored (snd (contact_route ContactInquiry str_exc body db)) ''contactinquiry''
              = stored db ''contactinquiry'' @ [(''_id'', ObjectId (next_id d)) # payload])
       \<and> (fst (create_document ''contactinquiry'' payload db) = Inl e \<longrightarrow>
            fst (contact_route ContactInquiry str_exc body db)
              = Inl (HTTPException 500 (str_exc e))
          \<and> status_code (fst (contact_route ContactInquiry str_exc body db)) = 500)"
proof (intro conjI impI)
  have route: "contact_route ContactInquiry str_exc body db = post_contact str_exc payload db"
    using assms by (simp add: contact_route_def)
  {
    assume a: "db = Some d \<and> fault d (Insert ''contactinquiry'') = None"
    then have c: "create_document ''contactinquiry'' payload db =
        (Inr (ObjectId (next_id d)),
         Some (d\<lparr>colls := AList.update ''contactinquiry''
                    (docs_of d ''contactinquiry'' @ [(''_id'', ObjectId (next_id d)) # payload])
                    (colls d),
                 next_id := Suc (next_id d)\<rparr>))"
      by (simp add: create_document_def)
    show "fst (contact_route ContactInquiry str_exc body db) = Inr [(''status'', Str ''received'')]"
      using c by (simp add: route post_contact_cases)
    have "snd (post_contact str_exc payload db) =
        Some (d\<lparr>colls := AList.update ''contactinquiry''
                    (docs_of d ''contactinquiry'' @ [(''_id'', ObjectId (next_id d)) # payload])
                    (colls d),
                 next_id := Suc (next_id d)\<rparr>)"
      using c by (simp add: post_contact_cases)
    then show "stored (snd (contact_route ContactInquiry str_exc body db)) ''contactinquiry''
              = stored db ''contactinquiry'' @ [(''_id'', ObjectId (next_id d)) # payload]"
      unfolding route using a by (simp add: stored_def docs_of_insert)
  }
  {
    assume "fst (create_document ''contactinquiry'' payload db) = Inl e"
    then show "fst (contact_route ContactInquiry str_exc body db)
              = Inl (HTTPException 500 (str_exc e))"
      and "status_code (fst (contact_route ContactInquiry str_exc body db)) = 500"
      by (cases "create_document ''contactinquiry'' payload db"; simp add: route post_contact_cases)+
  }
qed

theorem contact_persists_or_500_witness:
  "construct inquiry_fields
      [(''name'', Str ''Ada''), (''email'', Str ''ada@example.org''), (''message'', Str ''Dinner for ten'')]
     = Inr [(''name'', Str ''Ada''), (''email'', Str ''ada@example.org''), (''message'', Str ''Dinner for ten'')]
   \<and> fst (contact_route inquiry_fields failure_text
        [(''name'', Str ''Ada''), (''email'', Str ''ada@example.org''), (''message'', Str ''Dinner for ten'')]
        (Some empty_db)) = Inr [(''status'', Str ''received'')]
   \<and> stored (snd (contact_route inquiry_fields failure_text
        [(''name'', Str ''Ada''), (''email'', Str ''ada@example.org''), (''message'', Str ''Dinner for ten'')]
        (Some empty_db))) ''contactinquiry''
       = [[(''_id'', ObjectId 0), (''name'', Str ''Ada''), (''email'', Str ''ada@example.org''),
           (''message'', Str ''Dinner for ten'')]]
   \<and> fst (contact_route inquiry_fields failure_text
        [(''name'', Str ''Ada''), (''email'', Str ''ada@example.org''), (''message'', Str ''Dinner for ten'')]
        (Some down_db)) = Inl (HTTPException 500 ''connection refused'')"
proof -
  let ?body = "[(''name'', Str ''Ada''), (''email'', Str ''ada@example.org''),
                (''message'', Str ''Dinner for ten'')]"
  have c: "construct inquiry_fields ?body = Inr ?body"
    by (simp add: construct_def inquiry_fields_def required_def field_error_def field_value_def)
  have h: "Some empty_db = Some empty_db \<and> fault empty_db (Insert ''contactinquiry'') = None"
    by (simp add: empty_db_def no_fault_def)
  have s: "stored (Some empty_db) ''contactinquiry'' = []" "next_id empty_db = 0"
    by (simp_all add: stored_def docs_of_def empty_db_def)
  have f: "fst (create_document ''contactinquiry'' ?body (Some down_db))
             = Inl (StorageError (Failure ''connection refused''))"
    by (simp add: create_document_def down_db_def refusing_def)
  have t: "failure_text (StorageError (Failure ''connection refused'')) = ''connection refused''"
    by (simp add: failure_text_def)
  show ?thesis
    using contact_persists_or_500 [OF c, of "Some empty_db" empty_db failure_text]
      contact_persists_or_500 [OF c, of "Some down_db" _ failure_text
        "StorageError (Failure ''connection refused'')"]
      c h s f t
    by simp
qed

text \<open>
  C7, as amended. \<^verbatim>\<open>GET /test\<close> returns an object with exactly the keys \<^verbatim>\<open>backend\<close>,
  \<^verbatim>\<open>database\<close>, \<^verbatim>\<open>database_url\<close>, \<^verbatim>\<open>database_name\<close>, \<^verbatim>\<open>connection_status\<close> and
  \<^verbatim>\<open>collections\<close>, and its field \<^verbatim>\<open>database_name\<close> reports whether the environment
  variable \<^verbatim>\<open>DATABASE_NAME\<close> is set, whatever the state of the connection.
\<close>

theorem test_database_keys:
  "\<exists>response. test_database str_exc getenv db = Inr response
     \<and> map fst response =
         [''backend'', ''database'', ''database_url'', ''database_name'', ''connection_status'',
          ''collections'']
     \<and> map_of response ''database_name'' =
         Some (Str (if truthy (getenv ''DATABASE_NAME'') then check_mark @ '' Set''
                    else cross_mark @ '' Not Set''))"
  by (simp add: test_database_response)

theorem test_database_keys_witness:
  "truthy (configured_env ''DATABASE_NAME'')
   \<and> (\<exists>response. test_database failure_text configured_env (Some empty_db) = Inr response
        \<and> map fst response =
            [''backend'', ''database'', ''database_url'', ''database_name'',
             ''connection_status'', ''collections'']
        \<and> map_of response ''database_name'' = Some (Str (check_mark @ '' Set'')))"
proof -
  have t: "truthy (configured_env ''DATABASE_NAME'')"
    by (simp add: truthy_def configured_env_def)
  show ?thesis
    using test_database_keys [of failure_text configured_env "Some empty_db"] t by simp
qed

text \<open>
  On a connected store named \<^verbatim>\<open>catering\<close> the field \<^verbatim>\<open>database_name\<close> of the
  response is the text for a set variable, not the name of the database.
\<close>

theorem test_database_name_counterexample:
  "db_name empty_db = Some ''catering''
   \<and> test_database failure_text configured_env (Some empty_db) =
       Inr [(''backend'', Str (check_mark @ '' Running'')),
            (''database'', Str (check_mark @ '' Connected & Working'')),
            (''database_url'', Str (check_mark @ '' Set'')),
            (''database_name'', Str (check_mark @ '' Set'')),
            (''connection_status'', Str ''Connected''),
            (''collections'', StrList [])]"
  by (simp add: test_database_response empty_db_def no_fault_def list_collection_names_def
      truthy_def configured_env_def)

text \<open>
  C8. \<^verbatim>\<open>GET /test\<close> never raises: for every handle, environment and rendering of
  exceptions it returns a response, so the status is 200; the field \<^verbatim>\<open>database\<close> is the
  warning for a handle that was never initialised when \<^verbatim>\<open>db\<close> is \<^verbatim>\<open>None\<close>, the warning
  with the first 50 characters of the error when \<^verbatim>\<open>list_collection_names\<close> raises, and
  the text for a working connection otherwise; and the field \<^verbatim>\<open>collections\<close> is a list
  of at most 10 names.
\<close>

theorem test_database_never_raises:
  "status_code (test_database str_exc getenv db) = 200
   \<and> (\<exists>response ns. test_database str_exc getenv db = Inr response
         \<and> map_of response ''database'' =
             Some (Str (case db of
                          None \<Rightarrow> warning_sign @ ''  Available but not initialized''
                        | Some d \<Rightarrow>
                            (case list_collection_names d of
                               Inl e \<Rightarrow> warning_sign @ ''  Connected but Error: ''
                                          @ take_chars 50 (str_exc e)
                             | Inr names \<Rightarrow> check_mark @ '' Connected & Working'')))
         \<and> map_of response ''collections'' = Some (StrList ns) \<and> length ns \<le> 10)"
  by (simp add: test_database_response split: option.splits sum.splits)

theorem test_database_never_raises_witness:
  "status_code (test_database failure_text configured_env None) = 200
   \<and> status_code (test_database failure_text configured_env (Some down_db)) = 200
   \<and> list_collection_names down_db = Inl (StorageError (Failure ''connection refused''))
   \<and> (\<exists>response ns. test_database failure_text configured_env (Some down_db) = Inr response
         \<and> map_of response ''database'' =
             Some (Str (warning_sign @ ''  Connected but Error: connection refused''))
         \<and> map_of response ''collections'' = Some (StrList ns) \<and> length ns \<le> 10)"
proof -
  have l: "list_collection_names down_db = Inl (StorageError (Failure ''connection refused''))"
    by (simp add: list_collection_names_def down_db_def refusing_def)
  have t: "take_chars 50 (failure_text (StorageError (Failure ''connection refused'')))
             = ''connection refused''"
    by (simp add: failure_text_def continuation_def)
  show ?thesis
    using test_database_never_raises [of failure_text configured_env None]
      test_database_never_raises [of failure_text configured_env "Some down_db"] l t
    by simp
qed

text \<open>
  C9. \<^verbatim>\<open>POST /seed\<close> with \<^verbatim>\<open>db\<close> being \<^verbatim>\<open>None\<close>. The handler raises its
  \<^verbatim>\<open>HTTPException\<close> with the detail \<^verbatim>\<open>Database not configured\<close> inside the \<^verbatim>\<open>try\<close>
  block, whose \<^verbatim>\<open>except Exception\<close> catches it and raises a second one from its text:
  the status is 500, and the detail is the rendering of the first exception, status
  code included.
\<close>

theorem seed_unconfigured_detail:
  "seed_content (http_str other) None
     = (Inl (HTTPException 500 ''500: Database not configured''), None)"
  by (simp add: seed_content_def try_except_def seed_try_def raise_io_def http_str_def decimal_500)

text \<open>
  C10. A read endpoint returns all documents or none. When it returns, it returns as
  many items as there are stored documents, and every stored document supplies every
  field of the schema with a well-typed value; when a single stored document lacks a
  required field, the handler raises and the request is answered with status 500.
\<close>

theorem read_all_or_nothing:
  assumes "(handler, sch, c) \<in>
     {(get_menu, MenuItem, ''menuitem''), (get_testimonials, Testimonial, ''testimonial''),
      (get_gallery, GalleryImage, ''galleryimage'')}"
  shows "(handler db = Inr items \<longrightarrow>
            length items = length (stored db c)
          \<and> (\<forall>doc\<in>set (stored db c). \<forall>f\<in>set sch.
                \<exists>v. map_of doc (field_name f) = Some v \<and> well_typed (field_type f) v))
       \<and> (doc \<in> set (stored db c) \<and> f \<in> set sch \<and> map_of doc (field_name f) = None
          \<longrightarrow> (\<exists>e. handler db = Inl e) \<and> status_code (handler db) = 500)"
proof (intro conjI impI)
  note ep = read_endpoints [OF assms]
  {
    assume "handler db = Inr items"
    then have "read_endpoint sch c db = Inr items" using ep(1) by simp
    note echo = read_endpoint_echo [OF ep(2) this]
    show "length items = length (stored db c)"
      using echo by (simp add: list_all2_lengthD)
    show "\<forall>doc\<in>set (stored db c). \<forall>f\<in>set sch.
                \<exists>v. map_of doc (field_name f) = Some v \<and> well_typed (field_type f) v"
    proof (intro ballI)
      fix doc f
      assume doc: "doc \<in> set (stored db c)" and f: "f \<in> set sch"
      then obtain i where i: "i < length (stored db c)" "stored db c ! i = doc"
        by (auto simp: in_set_conv_nth)
      from list_all2_nthD [OF echo i(1)] f i(2)
      show "\<exists>v. map_of doc (field_name f) = Some v \<and> well_typed (field_type f) v"
        by blast
    qed
  }
  {
    assume a: "doc \<in> set (stored db c) \<and> f \<in> set sch \<and> map_of doc (field_name f) = None"
    then have "field_error doc f" using ep(2) by (simp add: field_error_def)
    from read_endpoint_fails [OF _ _ this, of db c sch] a
    show "\<exists>e. handler db = Inl e" and "status_code (handler db) = 500"
      using ep(1) by auto
  }
qed

theorem read_all_or_nothing_witness:
  "(get_menu, MenuItem, ''menuitem'') \<in>
     {(get_menu, MenuItem, ''menuitem''), (get_testimonials, Testimonial, ''testimonial''),
      (get_gallery, GalleryImage, ''galleryimage'')}
   \<and> [(''_id'', ObjectId 1), (''title'', Str ''Bread'')] \<in> set (stored (Some partial_db) ''menuitem'')
   \<and> required ''category'' TStr \<in> set MenuItem
   \<and> map_of [(''_id'', ObjectId 1), (''title'', Str ''Bread'')] (field_name (required ''category'' TStr)) = None
   \<and> (\<exists>e. get_menu (Some partial_db) = Inl e)
   \<and> status_code (get_menu (Some partial_db)) = 500
   \<and> get_menu (Some legacy_db) =
       Inr [[(''title'', Str ''Soup''), (''description'', Str ''Hot''),
             (''category'', Str ''Starters''), (''tags'', StrList []),
             (''image_url'', Str ''http://example.org/soup.jpg'')]]
   \<and> length [[(''title'', Str ''Soup''), (''description'', Str ''Hot''),
             (''category'', Str ''Starters''), (''tags'', StrList []),
             (''image_url'', Str ''http://example.org/soup.jpg'')]]
       = length (stored (Some legacy_db) ''menuitem'')"
proof -
  have m: "(get_menu, MenuItem, ''menuitem'') \<in>
     {(get_menu, MenuItem, ''menuitem''), (get_testimonials, Testimonial, ''testimonial''),
      (get_gallery, GalleryImage, ''galleryimage'')}"
    by simp
  have d: "[(''_id'', ObjectId 1), (''title'', Str ''Bread'')] \<in> set (stored (Some partial_db) ''menuitem'')"
    by (simp add: stored_def docs_of_def partial_db_def)
  have f: "required ''category'' TStr \<in> set MenuItem"
    by (simp add: MenuItem_def)
  have n: "map_of [(''_id'', ObjectId 1), (''title'', Str ''Bread'')] (field_name (required ''category'' TStr)) = None"
    by (simp add: required_def)
  have r: "get_menu (Some legacy_db) =
       Inr [[(''title'', Str ''Soup''), (''description'', Str ''Hot''),
             (''category'', Str ''Starters''), (''tags'', StrList []),
             (''image_url'', Str ''http://example.org/soup.jpg'')]]"
    by (simp add: get_menu_def get_documents_def legacy_db_def no_fault_def docs_of_def
        construct_def MenuItem_def required_def model_fields_def field_error_def field_value_def)
  from read_all_or_nothing [OF m, of "Some partial_db" _
      "[(''_id'', ObjectId 1), (''title'', Str ''Bread'')]" "required ''category'' TStr"] d f n
  have bad: "(\<exists>e. get_menu (Some partial_db) = Inl e) \<and> status_code (get_menu (Some partial_db)) = 500"
    by blast
  from read_all_or_nothing [OF m, of "Some legacy_db"] r
  have good: "length [[(''title'', Str ''Soup''), (''description'', Str ''Hot''),
             (''category'', Str ''Starters''), (''tags'', StrList []),
             (''image_url'', Str ''http://example.org/soup.jpg'')]]
       = length (stored (Some legacy_db) ''menuitem'')"
    by blast
  show ?thesis using m d f n bad r good by blast
qed

end
